theory Spec2Isabelle
  imports Complex_Main
begin

section \<open>JavaScript values used by \<open>src/bot.ts\<close>\<close>

text \<open>
  A thrown value is either an instance of \<open>Error\<close> (with its \<open>message\<close> and its
  \<open>stack\<close>) or some other value; the code tests \<open>instanceof Error\<close> in two places.
\<close>

datatype exn = Error string string | Thrown string

text \<open>
  An optional string property (\<open>messageId?: string\<close>, an environment variable, a nullable
  \<open>content\<close>) is \<open>None\<close> when it is undefined or null. In a condition such a value is
  truthy when it is a non-empty string.
\<close>

definition truthy :: "string option \<Rightarrow> bool" where
  "truthy v = (case v of None \<Rightarrow> False | Some s \<Rightarrow> s \<noteq> [])"

text \<open>Decimal rendering of an integer, as string concatenation does for a number.\<close>

definition digit_char :: "nat \<Rightarrow> char" where
  "digit_char d = ''0123456789'' ! (d mod 10)"

fun digits :: "nat \<Rightarrow> string" where
  "digits n = (if n < 10 then [digit_char n] else digits (n div 10) @ [digit_char (n mod 10)])"

declare digits.simps [simp del]

definition show_int :: "int \<Rightarrow> string" where
  "show_int i = (if i < 0 then ''-'' @ digits (nat (- i)) else digits (nat i))"

text \<open>
  \<open>new Date().toISOString()\<close>: the UTC fields of the instant, rendered as
  \<open>YYYY-MM-DDTHH:mm:ss.sssZ\<close> (an expanded year \<open>+YYYYYY\<close> beyond 9999).
\<close>

record date =
  year :: nat
  month :: nat
  day :: nat
  hours :: nat
  minutes :: nat
  seconds :: nat
  milliseconds :: nat

definition pad :: "nat \<Rightarrow> nat \<Rightarrow> string" where
  "pad w n = replicate (w - length (digits n)) CHR ''0'' @ digits n"

definition toISOString :: "date \<Rightarrow> string" where
  "toISOString d =
     (if year d \<le> 9999 then pad 4 (year d) else ''+'' @ pad 6 (year d))
     @ ''-'' @ pad 2 (month d) @ ''-'' @ pad 2 (day d)
     @ ''T'' @ pad 2 (hours d) @ '':'' @ pad 2 (minutes d) @ '':'' @ pad 2 (seconds d)
     @ ''.'' @ pad 3 (milliseconds d) @ ''Z''"

text \<open>\<open>s.split('T')[0]\<close>: the part of \<open>s\<close> before its first \<open>T\<close>, all of \<open>s\<close> without one.\<close>

definition split_T_0 :: "string \<Rightarrow> string" where
  "split_T_0 s = takeWhile (\<lambda>c. c \<noteq> CHR ''T'') s"

text \<open>\<open>s.startsWith(p)\<close> and \<open>s.substring(n)\<close>.\<close>

definition startsWith :: "string \<Rightarrow> string \<Rightarrow> bool" where
  "startsWith s p = (take (length p) s = p)"

definition substring :: "string \<Rightarrow> nat \<Rightarrow> string" where
  "substring s n = drop n s"

section \<open>Data model\<close>

text \<open>\<open>interface Ids\<close>: both fields optional.\<close>

record Ids =
  messageId :: "string option"
  threadId :: "string option"

text \<open>The role tags of \<open>ChatMessage\<close>, and their string values.\<close>

datatype role = Assistant | User | System

fun role_str :: "role \<Rightarrow> string" where
  "role_str Assistant = ''assistant''"
| "role_str User = ''user''"
| "role_str System = ''system''"

text \<open>An element of the \<open>messages\<close> array sent to the completion endpoint.\<close>

record message_param =
  role :: role
  content :: string

text \<open>
  A message of a thread as \<open>threads.messages.list\<close> returns it: a role and an array of
  content parts; a part of type \<open>text\<close> carries \<open>text.value\<close>.
\<close>

datatype content_part = Text string | NonText

record thread_message =
  msg_role :: role
  msg_content :: "content_part list"

text \<open>
  The result of \<open>chat.completions.create\<close>: \<open>choices[k].message\<close>, each with a role and
  a nullable content.
\<close>

record response_message =
  response_role :: role
  response_content :: "string option"

record completion =
  choices :: "response_message list"

text \<open>The argument of \<open>chat.completions.create\<close>.\<close>

record request =
  messages :: "message_param list"
  model :: string
  temperature :: real
  max_tokens :: int
  stream :: bool

text \<open>
  \<open>Options\<close> and \<open>OpenAIOptions\<close> are declared in \<open>./options\<close>; these are the fields
  that \<open>bot.ts\<close> reads.
\<close>

record token_limits =
  maxTokens :: int
  knowledgeCutOff :: string

record options =
  debug :: bool
  systemMessage :: string
  language :: string
  apiBaseUrl :: string
  openaiTimeoutMS :: int
  openaiRetries :: nat
  openaiHeavyModel :: string
  openaiModelTemperature :: real
  heavyTokenLimits :: token_limits

record openai_options =
  tokenLimits :: token_limits

text \<open>The configuration the \<open>OpenAI\<close> client is constructed with.\<close>

record openai_client =
  apiKey :: string
  organization :: "string option"
  baseURL :: "string option"
  timeout :: int
  maxRetries :: nat

text \<open>The fields of \<open>class Bot\<close>.\<close>

record bot =
  this_client :: "openai_client option"
  this_options :: options
  this_systemMessage :: string

section \<open>The world outside the class\<close>

text \<open>
  What the constructor reads from the process: two environment variables, the instant
  \<open>new Date()\<close> gives, and the stack the engine attaches to an \<open>Error\<close> created there.
\<close>

record process =
  OPENAI_API_KEY :: "string option"
  OPENAI_API_ORG :: "string option"
  new_Date :: date
  constructor_stack :: string

text \<open>
  The collaborators of one run: the clock (\<open>now k\<close> is the value of the \<open>k\<close>-th
  \<open>Date.now()\<close>), the two remote operations of the client (each may answer differently
  from call to call, so each is indexed by the number of calls made before), the text
  \<open>JSON.stringify\<close> gives for a response, and the stack of an \<open>Error\<close> created in
  \<open>chat_\<close>.
\<close>

record env =
  now :: "nat \<Rightarrow> int"
  list_messages :: "nat \<Rightarrow> string \<Rightarrow> exn + thread_message list"
  create_completion :: "nat \<Rightarrow> request \<Rightarrow> exn + completion"
  stringify :: "response_message \<Rightarrow> string"
  stack_trace :: "string \<Rightarrow> string"

text \<open>
  The effects of a run: how many times the clock was read, the lines given to \<open>info\<close>
  and \<open>warning\<close>, and the arguments of every remote call, in order.
\<close>

datatype log_line = Info string | Warning string

record world =
  ticks :: nat
  logged :: "log_line list"
  history_calls :: "string list"
  completion_calls :: "request list"

definition Date_now :: "env \<Rightarrow> world \<Rightarrow> int \<times> world" where
  "Date_now E w = (now E (ticks w), w\<lparr>ticks := Suc (ticks w)\<rparr>)"

definition info :: "string \<Rightarrow> world \<Rightarrow> world" where
  "info line w = w\<lparr>logged := logged w @ [Info line]\<rparr>"

definition warning :: "string \<Rightarrow> world \<Rightarrow> world" where
  "warning line w = w\<lparr>logged := logged w @ [Warning line]\<rparr>"

section \<open>The constructor\<close>

text \<open>
  Lines 25 to 48. With a truthy \<open>OPENAI_API_KEY\<close> the system message is built from the
  template literal and the client is created; otherwise the constructor throws.
\<close>

definition build_systemMessage :: "options \<Rightarrow> openai_options \<Rightarrow> string \<Rightarrow> string" where
  "build_systemMessage opts oopts currentDate =
     systemMessage opts @ '' '' @ [CHR 0x0A]
     @ ''Knowledge cutoff: '' @ knowledgeCutOff (tokenLimits oopts) @ [CHR 0x0A]
     @ ''Current date: '' @ currentDate @ [CHR 0x0A]
     @ [CHR 0x0A]
     @ ''IMPORTANT: Entire response must be in the language with ISO code: ''
     @ language opts @ [CHR 0x0A]"

definition missing_key :: string where
  "missing_key = ''Unable to initialize the OpenAI API, 'OPENAI_API_KEY' environment variable is not available''"

definition constructor :: "process \<Rightarrow> options \<Rightarrow> openai_options \<Rightarrow> exn + bot" where
  "constructor p opts oopts =
     (case OPENAI_API_KEY p of
        None \<Rightarrow> Inl (Error missing_key (constructor_stack p))
      | Some key \<Rightarrow>
          if key = [] then Inl (Error missing_key (constructor_stack p))
          else
            (let currentDate = split_T_0 (toISOString (new_Date p)) in
             Inr \<lparr>this_client = Some
                    \<lparr>apiKey = key,
                     organization = OPENAI_API_ORG p,
                     baseURL = (if apiBaseUrl opts = [] then None else Some (apiBaseUrl opts)),
                     timeout = openaiTimeoutMS opts,
                     maxRetries = openaiRetries opts\<rparr>,
                  this_options = opts,
                  this_systemMessage = build_systemMessage opts oopts currentDate\<rparr>))"

section \<open>One turn\<close>

text \<open>
  Lines 84 to 101, the loop over \<open>previousMessages.data\<close>. Each message is pushed at the
  end of \<open>messages\<close>, with the value of its first part when that part is text and the
  empty string otherwise. Reading \<open>msg.content[0].type\<close> of a message with no part throws
  a \<open>TypeError\<close>; the messages pushed before it stay in the array.
\<close>

fun push_previous ::
  "env \<Rightarrow> thread_message list \<Rightarrow> message_param list \<Rightarrow> (exn + unit) \<times> message_param list" where
  "push_previous E [] msgs = (Inr (), msgs)"
| "push_previous E (msg # rest) msgs =
     (case msg_content msg of
        [] \<Rightarrow> (Inl (Error ''Cannot read properties of undefined (reading 'type')''
                      (stack_trace E ''Cannot read properties of undefined (reading 'type')'')), msgs)
      | part # _ \<Rightarrow>
          push_previous E rest
            (msgs @ [\<lparr>role = msg_role msg,
                      content = (case part of Text v \<Rightarrow> v | NonText \<Rightarrow> [])\<rparr>]))"

definition threads_messages_list ::
  "env \<Rightarrow> string \<Rightarrow> world \<Rightarrow> (exn + thread_message list) \<times> world" where
  "threads_messages_list E tid w =
     (list_messages E (length (history_calls w)) tid,
      w\<lparr>history_calls := history_calls w @ [tid]\<rparr>)"

text \<open>
  Lines 73 to 101: the array starts as the system message and the new user message; with
  a truthy \<open>messageId\<close> and a truthy \<open>threadId\<close> the thread is listed and its messages are
  pushed. Whatever is thrown in there is caught and answered with a warning.
\<close>

definition assemble :: "env \<Rightarrow> bot \<Rightarrow> string \<Rightarrow> Ids \<Rightarrow> world \<Rightarrow> message_param list \<times> world" where
  "assemble E b message ids w =
     (let messages0 = [\<lparr>role = System, content = this_systemMessage b\<rparr>,
                       \<lparr>role = User, content = message\<rparr>]
      in if truthy (messageId ids) \<and> truthy (threadId ids) then
           (case threadId ids of
              None \<Rightarrow> (messages0, w)
            | Some tid \<Rightarrow>
                (case threads_messages_list E tid w of
                   (Inl error, w1) \<Rightarrow>
                     (messages0,
                      warning ''Failed to retrieve message history, continuing with new message'' w1)
                 | (Inr data, w1) \<Rightarrow>
                     (case push_previous E data messages0 of
                        (Inl error, msgs) \<Rightarrow>
                          (msgs,
                           warning ''Failed to retrieve message history, continuing with new message'' w1)
                      | (Inr u, msgs) \<Rightarrow> (msgs, w1))))
         else (messages0, w))"

text \<open>
  Lines 104 to 114, the function given to \<open>pRetry\<close>: one call of
  \<open>chat.completions.create\<close>, then \<open>completion.choices[0].message\<close>, which throws a
  \<open>TypeError\<close> when there is no choice.
\<close>

definition build_request :: "bot \<Rightarrow> message_param list \<Rightarrow> request" where
  "build_request b msgs =
     \<lparr>messages = msgs,
      model = (if openaiHeavyModel (this_options b) = [] then ''o3-mini''
               else openaiHeavyModel (this_options b)),
      temperature = openaiModelTemperature (this_options b),
      max_tokens = maxTokens (heavyTokenLimits (this_options b)),
      stream = False\<rparr>"

definition attempt ::
  "env \<Rightarrow> bot \<Rightarrow> message_param list \<Rightarrow> world \<Rightarrow> (exn + response_message) \<times> world" where
  "attempt E b msgs w =
     (let req = build_request b msgs;
          w1 = w\<lparr>completion_calls := completion_calls w @ [req]\<rparr>
      in case create_completion E (length (completion_calls w)) req of
           Inl error \<Rightarrow> (Inl error, w1)
         | Inr c \<Rightarrow>
             (case choices c of
                [] \<Rightarrow> (Inl (Error ''Cannot read properties of undefined (reading 'message')''
                              (stack_trace E ''Cannot read properties of undefined (reading 'message')'')), w1)
              | m # _ \<Rightarrow> (Inr m, w1)))"

text \<open>Lines 117 to 123, \<open>onFailedAttempt\<close>; a thrown value without a \<open>message\<close> prints as \<open>undefined\<close>.\<close>

definition error_message :: "exn \<Rightarrow> string" where
  "error_message e = (case e of Error m s \<Rightarrow> m | Thrown v \<Rightarrow> ''undefined'')"

definition onFailedAttempt :: "bot \<Rightarrow> exn \<Rightarrow> nat \<Rightarrow> world \<Rightarrow> world" where
  "onFailedAttempt b error attemptNumber w =
     info (''Attempt failed: '' @ error_message error @ ''. ''
           @ show_int (int attemptNumber) @ '' of ''
           @ show_int (int (openaiRetries (this_options b) + 1)) @ '' attempts made.'') w"

text \<open>Modelled from the spec: \<open>pRetry\<close> is the function of the library \<open>p-retry\<close>, which is
  not part of the source. Section 4.3 of the specification: the call is attempted up to
  \<open>retries + 1\<close> times, one after the other; it is retried on any exception, whatever its
  class; each failed attempt is reported with its attempt number; when all attempts
  fail the final exception goes to the caller; a success is returned as it is. The
  delay between attempts has no effect on the values and is left out.
  \<open>pRetry input report n k\<close> has \<open>n\<close> retries left and makes attempt number \<open>k\<close>.
\<close>

fun pRetry ::
  "(world \<Rightarrow> (exn + 'a) \<times> world) \<Rightarrow> (exn \<Rightarrow> nat \<Rightarrow> world \<Rightarrow> world) \<Rightarrow> nat \<Rightarrow> nat \<Rightarrow> world
     \<Rightarrow> (exn + 'a) \<times> world" where
  "pRetry input report 0 k w =
     (case input w of
        (Inr r, w1) \<Rightarrow> (Inr r, w1)
      | (Inl error, w1) \<Rightarrow> (Inl error, report error k w1))"
| "pRetry input report (Suc n) k w =
     (case input w of
        (Inr r, w1) \<Rightarrow> (Inr r, w1)
      | (Inl error, w1) \<Rightarrow> pRetry input report n (Suc k) (report error k w1))"

text \<open>Lines 134 to 137: the text of the response.\<close>

definition responseText :: "string option \<Rightarrow> string" where
  "responseText c =
     (let text0 = (case c of None \<Rightarrow> [] | Some s \<Rightarrow> s)
      in if startsWith text0 ''with '' then substring text0 5 else text0)"

text \<open>
  Lines 139 to 142: the new identity. \<open>Date.now()\<close> is read for \<open>messageId\<close>, and once
  more for \<open>threadId\<close> when the incoming \<open>threadId\<close> is not truthy.
\<close>

definition newIds :: "env \<Rightarrow> Ids \<Rightarrow> response_message \<Rightarrow> world \<Rightarrow> Ids \<times> world" where
  "newIds E ids response w =
     (case Date_now E w of
        (t1, w1) \<Rightarrow>
          (let mid = role_str (response_role response) @ ''_'' @ show_int t1
           in if truthy (threadId ids)
              then (\<lparr>messageId = Some mid, threadId = threadId ids\<rparr>, w1)
              else (case Date_now E w1 of
                      (t2, w2) \<Rightarrow>
                        (\<lparr>messageId = Some mid, threadId = Some (''thread_'' @ show_int t2)\<rparr>, w2))))"

text \<open>Lines 127 to 144: what follows a response.\<close>

definition respond ::
  "env \<Rightarrow> bot \<Rightarrow> Ids \<Rightarrow> int \<Rightarrow> response_message \<Rightarrow> world \<Rightarrow> (string \<times> Ids) \<times> world" where
  "respond E b ids start response w =
     (case Date_now E w of
        (end, w1) \<Rightarrow>
          (let w2 = info (''openai response time: '' @ show_int (end - start) @ '' ms'') w1;
               w3 = (if debug (this_options b)
                     then info (''openai response: '' @ stringify E response) w2 else w2)
           in case newIds E ids response w3 of
                (ids', w4) \<Rightarrow> ((responseText (response_content response), ids'), w4)))"

text \<open>The empty identity \<open>{}\<close>.\<close>

definition no_ids :: Ids where
  "no_ids = \<lparr>messageId = None, threadId = None\<rparr>"

text \<open>
  Lines 63 to 152, the private \<open>chat_\<close> (a name cannot end with an underscore here,
  so it is \<open>chat_impl\<close>). The result is \<open>Inl\<close> when the promise is rejected. The
  \<open>catch\<close> of line 145 logs and rethrows an \<open>Error\<close>, and replaces any other thrown
  value by a new \<open>Error\<close>.
\<close>

definition chat_impl :: "env \<Rightarrow> bot \<Rightarrow> string \<Rightarrow> Ids \<Rightarrow> world \<Rightarrow> (exn + string \<times> Ids) \<times> world" where
  "chat_impl E b message ids w =
     (case Date_now E w of
        (start, w0) \<Rightarrow>
          if message = [] \<or> this_client b = None then (Inr ([], no_ids), w0)
          else
            (case assemble E b message ids w0 of
               (msgs, w1) \<Rightarrow>
                 (case pRetry (attempt E b msgs) (onFailedAttempt b)
                         (openaiRetries (this_options b)) 1 w1 of
                    (Inr response, w2) \<Rightarrow>
                      (case respond E b ids start response w2 of (res, w3) \<Rightarrow> (Inr res, w3))
                  | (Inl error, w2) \<Rightarrow>
                      (case error of
                         Error m s \<Rightarrow>
                           (Inl error, info (''Failed to send message to OpenAI: '' @ m) w2)
                       | Thrown v \<Rightarrow>
                           (Inl (Error ''An unknown error occurred''
                                   (stack_trace E ''An unknown error occurred'')), w2)))))"

text \<open>
  Lines 50 to 61, \<open>chat\<close>: the result of \<open>chat_\<close>, or \<open>['', {}]\<close> when \<open>chat_\<close> rejects,
  with a warning when the thrown value is an \<open>Error\<close>. The result type keeps the
  \<open>Inl\<close> summand, so that a promise of \<open>chat\<close> that never rejects is a property to prove.
\<close>

definition chat :: "env \<Rightarrow> bot \<Rightarrow> string \<Rightarrow> Ids \<Rightarrow> world \<Rightarrow> (exn + string \<times> Ids) \<times> world" where
  "chat E b message ids w =
     (case chat_impl E b message ids w of
        (Inr res, w1) \<Rightarrow> (Inr res, w1)
      | (Inl e, w1) \<Rightarrow>
          (Inr ([], no_ids),
           (case e of
              Error m s \<Rightarrow> warning (''Failed to chat: '' @ m @ '', backtrace: '' @ s) w1
            | Thrown v \<Rightarrow> w1)))"

section \<open>Concrete collaborators\<close>

text \<open>Inputs on which the definitions are evaluated below.\<close>

definition opts1 :: options where
  "opts1 = \<lparr>debug = False, systemMessage = ''You are a code reviewer.'', language = ''en-US'',
             apiBaseUrl = [], openaiTimeoutMS = 360000, openaiRetries = Suc (Suc 0),
             openaiHeavyModel = ''gpt-4'', openaiModelTemperature = 0,
             heavyTokenLimits = \<lparr>maxTokens = 4000, knowledgeCutOff = ''2021-09-01''\<rparr>\<rparr>"

definition oopts1 :: openai_options where
  "oopts1 = \<lparr>tokenLimits = \<lparr>maxTokens = 4000, knowledgeCutOff = ''2021-09-01''\<rparr>\<rparr>"

definition date1 :: date where
  "date1 = \<lparr>year = 2024, month = 3, day = 9, hours = 14, minutes = 5, seconds = 0,
             milliseconds = 42\<rparr>"

definition process_with_key :: process where
  "process_with_key = \<lparr>OPENAI_API_KEY = Some ''sk-test'', OPENAI_API_ORG = None,
                        new_Date = date1, constructor_stack = ''at new Bot''\<rparr>"

definition process_without_key :: process where
  "process_without_key = \<lparr>OPENAI_API_KEY = None, OPENAI_API_ORG = None,
                           new_Date = date1, constructor_stack = ''at new Bot''\<rparr>"

definition bot1 :: bot where
  "bot1 = \<lparr>this_client = Some \<lparr>apiKey = ''sk-test'', organization = None, baseURL = None,
                                  timeout = 360000, maxRetries = Suc (Suc 0)\<rparr>,
            this_options = opts1,
            this_systemMessage = build_systemMessage opts1 oopts1 ''2024-03-09''\<rparr>"

definition world0 :: world where
  "world0 = \<lparr>ticks = 0, logged = [], history_calls = [], completion_calls = []\<rparr>"

definition ids_prev :: Ids where
  "ids_prev = \<lparr>messageId = Some ''assistant_900'', threadId = Some ''thread_7''\<rparr>"

text \<open>A service that answers \<open>with hello\<close> and knows one earlier assistant message.\<close>

definition env_up :: env where
  "env_up = \<lparr>now = (\<lambda>k. 1000 + int k),
             list_messages = (\<lambda>k tid. Inr [\<lparr>msg_role = Assistant, msg_content = [Text ''earlier reply'']\<rparr>]),
             create_completion = (\<lambda>k req. Inr \<lparr>choices = [\<lparr>response_role = Assistant,
                                                            response_content = Some ''with hello''\<rparr>]\<rparr>),
             stringify = (\<lambda>r. ''{}''),
             stack_trace = (\<lambda>m. ''at chat_'')\<rparr>"

text \<open>A service whose every call throws an \<open>Error\<close>.\<close>

definition env_down :: env where
  "env_down = \<lparr>now = (\<lambda>k. 1000 + int k),
               list_messages = (\<lambda>k tid. Inl (Error ''no such thread'' ''at list'')),
               create_completion = (\<lambda>k req. Inl (Error ''503'' ''at create'')),
               stringify = (\<lambda>r. ''{}''),
               stack_trace = (\<lambda>m. ''at chat_'')\<rparr>"

text \<open>A service without history that answers \<open>with hello\<close>.\<close>

definition env_nohist :: env where
  "env_nohist = \<lparr>now = (\<lambda>k. 1000 + int k),
                 list_messages = (\<lambda>k tid. Inl (Error ''no such thread'' ''at list'')),
                 create_completion = (\<lambda>k req. Inr \<lparr>choices = [\<lparr>response_role = Assistant,
                                                                response_content = Some ''with hello''\<rparr>]\<rparr>),
                 stringify = (\<lambda>r. ''{}''),
                 stack_trace = (\<lambda>m. ''at chat_'')\<rparr>"

text \<open>A service without history whose completion has a null content.\<close>

definition env_null :: env where
  "env_null = \<lparr>now = (\<lambda>k. 1000 + int k),
               list_messages = (\<lambda>k tid. Inl (Error ''no such thread'' ''at list'')),
               create_completion = (\<lambda>k req. Inr \<lparr>choices = [\<lparr>response_role = Assistant,
                                                              response_content = None\<rparr>]\<rparr>),
               stringify = (\<lambda>r. ''{}''),
               stack_trace = (\<lambda>m. ''at chat_'')\<rparr>"

section \<open>What a turn does to the world\<close>

lemma onFailedAttempt_fields [simp]:
  "completion_calls (onFailedAttempt b e k w) = completion_calls w"
  "history_calls (onFailedAttempt b e k w) = history_calls w"
  "ticks (onFailedAttempt b e k w) = ticks w"
  by (simp_all add: onFailedAttempt_def info_def)

lemma attempt_fields:
  assumes "attempt E b msgs w = (r, w')"
  shows "completion_calls w' = completion_calls w @ [build_request b msgs]"
    and "history_calls w' = history_calls w"
    and "ticks w' = ticks w"
    and "logged w' = logged w"
  using assms by (auto simp: attempt_def Let_def split: sum.splits list.splits)

lemma pRetry_calls:
  "pRetry (attempt E b msgs) (onFailedAttempt b) n k w = (r, w') \<Longrightarrow>
   \<exists>j. 1 \<le> j \<and> j \<le> Suc n \<and>
       completion_calls w' = completion_calls w @ replicate j (build_request b msgs) \<and>
       history_calls w' = history_calls w \<and> ticks w' = ticks w"
proof (induction n arbitrary: k w)
  case 0
  obtain r1 w1 where a: "attempt E b msgs w = (r1, w1)" by (cases "attempt E b msgs w")
  from "0" a attempt_fields [OF a] show ?case
    by (cases r1) (auto intro!: exI [of _ 1])
next
  case (Suc n)
  obtain r1 w1 where a: "attempt E b msgs w = (r1, w1)" by (cases "attempt E b msgs w")
  show ?case
  proof (cases r1)
    case (Inr m)
    with Suc.prems a attempt_fields [OF a] show ?thesis
      by (auto intro!: exI [of _ 1])
  next
    case (Inl e)
    with Suc.prems a
    have "pRetry (attempt E b msgs) (onFailedAttempt b) n (Suc k) (onFailedAttempt b e k w1) = (r, w')"
      by simp
    from Suc.IH [OF this] obtain j where j: "1 \<le> j" "j \<le> Suc n"
      "completion_calls w' = completion_calls (onFailedAttempt b e k w1) @ replicate j (build_request b msgs)"
      "history_calls w' = history_calls (onFailedAttempt b e k w1)"
      "ticks w' = ticks (onFailedAttempt b e k w1)"
      by blast
    with attempt_fields [OF a] show ?thesis
      by (intro exI [of _ "Suc j"]) (simp add: replicate_append_same)
  qed
qed

lemma pRetry_ticks:
  "pRetry (attempt E b msgs) (onFailedAttempt b) n k w = (r, w') \<Longrightarrow> ticks w' = ticks w"
  using pRetry_calls by blast

lemma attempt_fails:
  assumes "\<forall>k req. isl (create_completion E k req)"
  shows "\<exists>e. attempt E b msgs w =
           (Inl e, w\<lparr>completion_calls := completion_calls w @ [build_request b msgs]\<rparr>)"
proof -
  from assms obtain e where
    "create_completion E (length (completion_calls w)) (build_request b msgs) = Inl e"
    by (metis sum.collapse(1))
  then show ?thesis by (simp add: attempt_def)
qed

lemma pRetry_all_fail:
  assumes "\<forall>k req. isl (create_completion E k req)"
  shows "\<exists>e w'. pRetry (attempt E b msgs) (onFailedAttempt b) n k w = (Inl e, w') \<and>
           completion_calls w' = completion_calls w @ replicate (Suc n) (build_request b msgs)"
proof (induction n arbitrary: k w)
  case 0
  from attempt_fails [OF assms, of b msgs w] show ?case by auto
next
  case (Suc n)
  from attempt_fails [OF assms, of b msgs w] obtain e where
    a: "attempt E b msgs w = (Inl e, w\<lparr>completion_calls := completion_calls w @ [build_request b msgs]\<rparr>)"
    by blast
  from Suc.IH [of "Suc k" "onFailedAttempt b e k (w\<lparr>completion_calls := completion_calls w @ [build_request b msgs]\<rparr>)"]
  show ?case using a by (auto simp: replicate_append_same)
qed

lemma assemble_fields:
  assumes "assemble E b m i w = (msgs, w')"
  shows "completion_calls w' = completion_calls w" and "ticks w' = ticks w"
  using assms
  by (auto simp: assemble_def Let_def threads_messages_list_def warning_def
           split: if_splits option.splits sum.splits prod.splits)

lemma assemble_ticks:
  "assemble E b m i (snd (Date_now E w)) = (msgs, w1) \<Longrightarrow> ticks w1 = Suc (ticks w)"
  using assemble_fields(2) by (fastforce simp: Date_now_def)

lemma push_previous_extends:
  "push_previous E data msgs = (r, msgs') \<Longrightarrow> \<exists>rest. msgs' = msgs @ rest"
proof (induction data arbitrary: msgs)
  case Nil
  then show ?case by simp
next
  case (Cons msg data)
  show ?case
  proof (cases "msg_content msg")
    case Nil
    with Cons.prems show ?thesis by simp
  next
    case (Cons part parts)
    with Cons.prems Cons.IH show ?thesis by fastforce
  qed
qed

lemma assemble_begins:
  assumes "assemble E b m i w = (msgs, w')"
  shows "\<exists>rest. msgs = \<lparr>role = System, content = this_systemMessage b\<rparr>
                        # \<lparr>role = User, content = m\<rparr> # rest"
proof -
  let ?m0 = "[\<lparr>role = System, content = this_systemMessage b\<rparr>, \<lparr>role = User, content = m\<rparr>]"
  have "\<exists>rest. msgs = ?m0 @ rest"
    using assms
    by (auto simp: assemble_def Let_def
             split: if_splits option.splits sum.splits prod.splits
             dest: push_previous_extends)
  then show ?thesis by simp
qed

lemma push_previous_pushes:
  "\<forall>msg \<in> set data. msg_content msg \<noteq> [] \<Longrightarrow>
   push_previous E data msgs =
     (Inr (), msgs @ map (\<lambda>msg. \<lparr>role = msg_role msg,
                                  content = (case hd (msg_content msg) of
                                               Text v \<Rightarrow> v | NonText \<Rightarrow> [])\<rparr>) data)"
proof (induction data arbitrary: msgs)
  case Nil
  then show ?case by simp
next
  case (Cons msg data)
  then obtain part parts where "msg_content msg = part # parts"
    by (cases "msg_content msg") auto
  with Cons show ?case by simp
qed

text \<open>
  With a listed thread whose messages all have a part, the assembled array is the system
  message, the new user message, and then the thread's messages in the order listed.
\<close>

lemma assemble_history_listed:
  assumes "truthy (messageId i)" and "threadId i = Some tid" and "tid \<noteq> []"
    and "list_messages E (length (history_calls w)) tid = Inr data"
    and "\<forall>msg \<in> set data. msg_content msg \<noteq> []"
  shows "assemble E b m i w =
           (\<lparr>role = System, content = this_systemMessage b\<rparr>
            # \<lparr>role = User, content = m\<rparr>
            # map (\<lambda>msg. \<lparr>role = msg_role msg,
                             content = (case hd (msg_content msg) of
                                          Text v \<Rightarrow> v | NonText \<Rightarrow> [])\<rparr>) data,
            w\<lparr>history_calls := history_calls w @ [tid]\<rparr>)"
  using assms(1-4) push_previous_pushes [OF assms(5)]
  by (simp add: assemble_def threads_messages_list_def truthy_def)

lemma assemble_history_fails:
  assumes "truthy (messageId i)" and "threadId i = Some tid" and "tid \<noteq> []"
    and "list_messages E (length (history_calls w)) tid = Inl err"
  shows "assemble E b m i w =
           ([\<lparr>role = System, content = this_systemMessage b\<rparr>, \<lparr>role = User, content = m\<rparr>],
            warning ''Failed to retrieve message history, continuing with new message''
              (w\<lparr>history_calls := history_calls w @ [tid]\<rparr>))"
  using assms by (simp add: assemble_def threads_messages_list_def truthy_def)

lemma respond_fields:
  assumes "respond E b i start resp w = (res, w')"
  shows "completion_calls w' = completion_calls w" and "history_calls w' = history_calls w"
  using assms
  by (auto simp: respond_def newIds_def Date_now_def info_def Let_def split: if_splits prod.splits)

lemma show_int_nonempty: "show_int t \<noteq> []"
  by (simp add: show_int_def digits.simps [of "nat t"] digits.simps [of "nat (- t)"])

lemma respond_result:
  "fst (respond E b i start resp w) =
     (responseText (response_content resp),
      \<lparr>messageId = Some (role_str (response_role resp) @ ''_'' @ show_int (now E (Suc (ticks w)))),
       threadId = (if truthy (threadId i) then threadId i
                   else Some (''thread_'' @ show_int (now E (Suc (Suc (ticks w))))))\<rparr>)"
  by (simp add: respond_def newIds_def Date_now_def info_def Let_def split: prod.splits)

lemma chat_guarded:
  "m = [] \<or> this_client b = None \<Longrightarrow>
   chat E b m i w = (Inr ([], no_ids), w\<lparr>ticks := Suc (ticks w)\<rparr>)"
  by (auto simp: chat_def chat_impl_def Date_now_def)

lemma chat_succeeds:
  assumes "m \<noteq> []" and "this_client b \<noteq> None"
    and "assemble E b m i (snd (Date_now E w)) = (msgs, w1)"
    and "pRetry (attempt E b msgs) (onFailedAttempt b) (openaiRetries (this_options b)) 1 w1
           = (Inr resp, w2)"
  shows "chat E b m i w =
           (Inr (fst (respond E b i (now E (ticks w)) resp w2)),
            snd (respond E b i (now E (ticks w)) resp w2))"
proof -
  from assms(2) obtain cl where "this_client b = Some cl" by auto
  with assms(1,3,4) show ?thesis
    by (simp add: chat_def chat_impl_def Date_now_def split: prod.splits)
qed

lemma chat_fails:
  assumes "m \<noteq> []" and "this_client b \<noteq> None"
    and "assemble E b m i (snd (Date_now E w)) = (msgs, w1)"
    and "pRetry (attempt E b msgs) (onFailedAttempt b) (openaiRetries (this_options b)) 1 w1
           = (Inl e, w2)"
  shows "fst (chat E b m i w) = Inr ([], no_ids)"
    and "completion_calls (snd (chat E b m i w)) = completion_calls w2"
proof -
  from assms(2) obtain cl where "this_client b = Some cl" by auto
  with assms(1,3,4)
  show "fst (chat E b m i w) = Inr ([], no_ids)"
    and "completion_calls (snd (chat E b m i w)) = completion_calls w2"
    by (cases e; simp add: chat_def chat_impl_def Date_now_def info_def warning_def)+
qed

lemma chat_requests_of_assemble:
  assumes "m \<noteq> []" and "this_client b \<noteq> None"
    and "assemble E b m i (snd (Date_now E w)) = (msgs, w1)"
  shows "\<exists>j. 1 \<le> j \<and> j \<le> Suc (openaiRetries (this_options b)) \<and>
           completion_calls (snd (chat E b m i w)) =
             completion_calls w @ replicate j (build_request b msgs)"
proof -
  obtain r w2 where p:
    "pRetry (attempt E b msgs) (onFailedAttempt b) (openaiRetries (this_options b)) 1 w1 = (r, w2)"
    by (cases "pRetry (attempt E b msgs) (onFailedAttempt b) (openaiRetries (this_options b)) 1 w1")
  from pRetry_calls [OF p] obtain j where j: "1 \<le> j" "j \<le> Suc (openaiRetries (this_options b))"
    "completion_calls w2 = completion_calls w1 @ replicate j (build_request b msgs)"
    by blast
  have c1: "completion_calls w1 = completion_calls w"
    using assemble_fields(1) [OF assms(3)] by (simp add: Date_now_def)
  have "completion_calls (snd (chat E b m i w)) = completion_calls w2"
  proof (cases r)
    case (Inl e)
    with p chat_fails(2) [OF assms] show ?thesis by simp
  next
    case (Inr resp)
    with p chat_succeeds [OF assms] show ?thesis
      by (simp add: respond_fields(1) [OF surjective_pairing])
  qed
  with j c1 show ?thesis by (intro exI [of _ j]) simp
qed

lemma chat_requests:
  "\<exists>j rest. j \<le> Suc (openaiRetries (this_options b)) \<and>
     completion_calls (snd (chat E b m i w)) =
       completion_calls w @
       replicate j (build_request b (\<lparr>role = System, content = this_systemMessage b\<rparr>
                                     # \<lparr>role = User, content = m\<rparr> # rest))"
proof (cases "m = [] \<or> this_client b = None")
  case True
  from chat_guarded [OF this, of E i w] show ?thesis
    by (intro exI [of _ 0]) simp
next
  case False
  then have g: "m \<noteq> []" "this_client b \<noteq> None" by auto
  obtain msgs w1 where as: "assemble E b m i (snd (Date_now E w)) = (msgs, w1)"
    by (cases "assemble E b m i (snd (Date_now E w))")
  obtain r w2 where p:
    "pRetry (attempt E b msgs) (onFailedAttempt b) (openaiRetries (this_options b)) 1 w1 = (r, w2)"
    by (cases "pRetry (attempt E b msgs) (onFailedAttempt b) (openaiRetries (this_options b)) 1 w1")
  from assemble_begins [OF as] obtain rest where
    msgs: "msgs = \<lparr>role = System, content = this_systemMessage b\<rparr>
                  # \<lparr>role = User, content = m\<rparr> # rest"
    by blast
  from pRetry_calls [OF p] obtain j where j: "j \<le> Suc (openaiRetries (this_options b))"
    "completion_calls w2 = completion_calls w1 @ replicate j (build_request b msgs)"
    by blast
  have c1: "completion_calls w1 = completion_calls w"
    using assemble_fields(1) [OF as] by (simp add: Date_now_def)
  have "completion_calls (snd (chat E b m i w)) = completion_calls w2"
  proof (cases r)
    case (Inl e)
    with p chat_fails(2) [OF g as] show ?thesis by simp
  next
    case (Inr resp)
    with p chat_succeeds [OF g as] show ?thesis
      by (simp add: respond_fields(1) [OF surjective_pairing])
  qed
  with j c1 msgs show ?thesis
    by (intro exI [of _ j] exI [of _ rest]) simp
qed

lemma chat_impl_throws_Error:
  "chat_impl E b m i w = (Inl e, w') \<Longrightarrow> \<exists>msg st. e = Error msg st"
  by (auto simp: chat_impl_def split: prod.splits if_splits sum.splits exn.splits)

section \<open>The date in the system message\<close>

lemma digit_char_not_T: "digit_char d \<noteq> CHR ''T''"
proof -
  have "d mod 10 < length ''0123456789''" by simp
  then have "digit_char d \<in> set ''0123456789''"
    unfolding digit_char_def by (rule nth_mem)
  then show ?thesis by auto
qed

lemma digits_no_T: "CHR ''T'' \<notin> set (digits n)"
proof (induction n rule: digits.induct)
  case (1 n)
  show ?case
  proof (cases "n < 10")
    case True
    then show ?thesis using digit_char_not_T [of n] by (simp add: digits.simps [of n])
  next
    case False
    with "1" digit_char_not_T [of "n mod 10"] show ?thesis
      by (subst digits.simps) auto
  qed
qed

lemma pad_no_T: "CHR ''T'' \<notin> set (pad w n)"
  using digits_no_T [of n] by (auto simp: pad_def)

lemma split_T_0_prefix: "CHR ''T'' \<notin> set xs \<Longrightarrow> split_T_0 (xs @ CHR ''T'' # ys) = xs"
  unfolding split_T_0_def by (subst takeWhile_append2) auto

lemma currentDate_eq:
  "split_T_0 (toISOString d) =
     (if year d \<le> 9999 then pad 4 (year d) else ''+'' @ pad 6 (year d))
     @ ''-'' @ pad 2 (month d) @ ''-'' @ pad 2 (day d)"
proof -
  let ?day = "(if year d \<le> 9999 then pad 4 (year d) else ''+'' @ pad 6 (year d))
     @ ''-'' @ pad 2 (month d) @ ''-'' @ pad 2 (day d)"
  let ?time = "pad 2 (hours d) @ '':'' @ pad 2 (minutes d)
     @ '':'' @ pad 2 (seconds d) @ ''.'' @ pad 3 (milliseconds d) @ ''Z''"
  have a: "CHR ''T'' \<notin> set ?day" by (simp add: pad_no_T)
  have b: "toISOString d = ?day @ CHR ''T'' # ?time"
    by (simp add: toISOString_def)
  show ?thesis unfolding b by (rule split_T_0_prefix [OF a])
qed

lemma constructor_Inr:
  assumes "constructor p opts oopts = Inr b"
  shows "this_systemMessage b =
           build_systemMessage opts oopts (split_T_0 (toISOString (new_Date p)))"
    and "this_client b \<noteq> None" and "this_options b = opts"
  using assms by (auto simp: constructor_def Let_def split: option.splits if_splits)

section \<open>Evaluation on the concrete collaborators\<close>

lemma chat_impl_down:
  "chat_impl env_down bot1 ''hi'' ids_prev world0 =
   (Inl (Error ''503'' ''at create''),
    \<lparr>ticks = 1,
     logged = [Warning ''Failed to retrieve message history, continuing with new message'',
               Info ''Attempt failed: 503. 1 of 3 attempts made.'',
               Info ''Attempt failed: 503. 2 of 3 attempts made.'',
               Info ''Attempt failed: 503. 3 of 3 attempts made.'',
               Info ''Failed to send message to OpenAI: 503''],
     history_calls = [''thread_7''],
     completion_calls = replicate 3 (build_request bot1
        [\<lparr>role = System, content = this_systemMessage bot1\<rparr>,
         \<lparr>role = User, content = ''hi''\<rparr>])\<rparr>)"
  by code_simp

lemma constructor_bot1: "constructor process_with_key opts1 oopts1 = Inr bot1"
  by code_simp

lemma sys1: "this_systemMessage bot1 =
     ''You are a code reviewer. '' @ [CHR 0x0A]
     @ ''Knowledge cutoff: 2021-09-01'' @ [CHR 0x0A]
     @ ''Current date: 2024-03-09'' @ [CHR 0x0A, CHR 0x0A]
     @ ''IMPORTANT: Entire response must be in the language with ISO code: en-US'' @ [CHR 0x0A]"
  by (simp add: bot1_def build_systemMessage_def opts1_def oopts1_def)

lemma chat_up_first: "map messages (completion_calls (snd (chat env_up bot1 ''hi'' no_ids world0))) =
     [[\<lparr>role = System, content = this_systemMessage bot1\<rparr>, \<lparr>role = User, content = ''hi''\<rparr>]]"
  by code_simp

lemma chat_nohist:
  "chat env_nohist bot1 ''hi'' ids_prev world0 =
     (Inr (''hello'', \<lparr>messageId = Some ''assistant_1002'', threadId = Some ''thread_7''\<rparr>),
      \<lparr>ticks = 3,
       logged = [Warning ''Failed to retrieve message history, continuing with new message'',
                 Info ''openai response time: 1 ms''],
       history_calls = [''thread_7''],
       completion_calls = [build_request bot1
          [\<lparr>role = System, content = this_systemMessage bot1\<rparr>,
           \<lparr>role = User, content = ''hi''\<rparr>]]\<rparr>)"
  by code_simp

lemma turn_null_first:
  "assemble env_null bot1 ''hi'' no_ids (snd (Date_now env_null world0)) =
     ([\<lparr>role = System, content = this_systemMessage bot1\<rparr>, \<lparr>role = User, content = ''hi''\<rparr>],
      world0\<lparr>ticks := 1\<rparr>)"
  "pRetry (attempt env_null bot1
             [\<lparr>role = System, content = this_systemMessage bot1\<rparr>, \<lparr>role = User, content = ''hi''\<rparr>])
      (onFailedAttempt bot1) (openaiRetries (this_options bot1)) 1 (world0\<lparr>ticks := 1\<rparr>) =
     (Inr \<lparr>response_role = Assistant, response_content = None\<rparr>,
      world0\<lparr>ticks := 1, completion_calls := [build_request bot1
             [\<lparr>role = System, content = this_systemMessage bot1\<rparr>, \<lparr>role = User, content = ''hi''\<rparr>]]\<rparr>)"
  by code_simp+

lemma chat_null_first:
  "fst (chat env_null bot1 ''hi'' no_ids world0) =
     Inr ([], \<lparr>messageId = Some ''assistant_1002'', threadId = Some ''thread_1003''\<rparr>)"
  by code_simp

lemma turn_up_first:
  "assemble env_up bot1 ''hi'' no_ids (snd (Date_now env_up world0)) =
     ([\<lparr>role = System, content = this_systemMessage bot1\<rparr>, \<lparr>role = User, content = ''hi''\<rparr>],
      world0\<lparr>ticks := 1\<rparr>)"
  "pRetry (attempt env_up bot1
             [\<lparr>role = System, content = this_systemMessage bot1\<rparr>, \<lparr>role = User, content = ''hi''\<rparr>])
      (onFailedAttempt bot1) (openaiRetries (this_options bot1)) 1 (world0\<lparr>ticks := 1\<rparr>) =
     (Inr \<lparr>response_role = Assistant, response_content = Some ''with hello''\<rparr>,
      world0\<lparr>ticks := 1, completion_calls := [build_request bot1
             [\<lparr>role = System, content = this_systemMessage bot1\<rparr>, \<lparr>role = User, content = ''hi''\<rparr>]]\<rparr>)"
  by code_simp+

lemma chat_up_ids:
  "fst (chat env_up bot1 ''hi'' no_ids world0) =
     Inr (''hello'', \<lparr>messageId = Some ''assistant_1002'', threadId = Some ''thread_1003''\<rparr>)"
  by code_simp

lemma turn_nohist_prev:
  "assemble env_nohist bot1 ''hi'' ids_prev (snd (Date_now env_nohist world0)) =
     ([\<lparr>role = System, content = this_systemMessage bot1\<rparr>, \<lparr>role = User, content = ''hi''\<rparr>],
      \<lparr>ticks = 1,
       logged = [Warning ''Failed to retrieve message history, continuing with new message''],
       history_calls = [''thread_7''], completion_calls = []\<rparr>)"
  "pRetry (attempt env_nohist bot1
             [\<lparr>role = System, content = this_systemMessage bot1\<rparr>, \<lparr>role = User, content = ''hi''\<rparr>])
      (onFailedAttempt bot1) (openaiRetries (this_options bot1)) 1
      \<lparr>ticks = 1,
       logged = [Warning ''Failed to retrieve message history, continuing with new message''],
       history_calls = [''thread_7''], completion_calls = []\<rparr> =
     (Inr \<lparr>response_role = Assistant, response_content = Some ''with hello''\<rparr>,
      \<lparr>ticks = 1,
       logged = [Warning ''Failed to retrieve message history, continuing with new message''],
       history_calls = [''thread_7''],
       completion_calls = [build_request bot1
             [\<lparr>role = System, content = this_systemMessage bot1\<rparr>, \<lparr>role = User, content = ''hi''\<rparr>]]\<rparr>)"
  by code_simp+

section \<open>The never-throws boundary\<close>

text \<open>
  C1. For every message and identity, \<open>chat\<close> resolves and never rejects; and whenever
  the inner \<open>chat_\<close> rejects, the thrown value is an \<open>Error\<close>, \<open>chat\<close> logs the warning
  with its message and stack, and the result is \<open>['', {}]\<close>.
\<close>

theorem chat_never_throws:
  "(\<exists>text ids' w'. chat E b m i w = (Inr (text, ids'), w')) \<and>
   (\<forall>e w1. chat_impl E b m i w = (Inl e, w1) \<longrightarrow>
      (\<exists>msg st. e = Error msg st \<and>
         chat E b m i w =
           (Inr ([], no_ids), warning (''Failed to chat: '' @ msg @ '', backtrace: '' @ st) w1)))"
proof (intro conjI allI impI)
  show "\<exists>text ids' w'. chat E b m i w = (Inr (text, ids'), w')"
    by (cases "chat_impl E b m i w") (auto simp: chat_def split: sum.splits)
next
  fix e w1 assume a: "chat_impl E b m i w = (Inl e, w1)"
  from chat_impl_throws_Error [OF a] obtain msg st where "e = Error msg st" by blast
  with a show "\<exists>msg st. e = Error msg st \<and>
         chat E b m i w =
           (Inr ([], no_ids), warning (''Failed to chat: '' @ msg @ '', backtrace: '' @ st) w1)"
    by (simp add: chat_def)
qed

theorem chat_never_throws_witness:
  "fst (chat_impl env_down bot1 ''hi'' ids_prev world0) = Inl (Error ''503'' ''at create'') \<and>
   fst (chat env_down bot1 ''hi'' ids_prev world0) = Inr ([], no_ids) \<and>
   last (logged (snd (chat env_down bot1 ''hi'' ids_prev world0))) =
     Warning ''Failed to chat: 503, backtrace: at create''"
  using chat_never_throws [of env_down bot1 "''hi''" ids_prev world0] chat_impl_down
  by (simp add: warning_def)

section \<open>The order of the assembled messages\<close>

text \<open>
  C2. The claim puts the new user message last, with the history between the system
  message and it. The code creates the array as system message and user message and
  then pushes the listed thread after them: with one earlier assistant message in the
  thread, the request ends with that assistant message.
\<close>

theorem history_pushed_after_user_message:
  "map messages (completion_calls (snd (chat env_up bot1 ''hi'' ids_prev world0))) =
     [[\<lparr>role = System, content = this_systemMessage bot1\<rparr>,
       \<lparr>role = User, content = ''hi''\<rparr>,
       \<lparr>role = Assistant, content = ''earlier reply''\<rparr>]]"
  by code_simp

section \<open>The retry budget\<close>

text \<open>
  C3. With a retry budget \<open>N = openaiRetries\<close> and a completion provider that throws on
  every call, a turn (non-empty message, client present) calls the provider exactly
  \<open>N + 1\<close> times, each time with the request assembled for the turn, and \<open>chat\<close>
  resolves to \<open>['', {}]\<close>.
\<close>

theorem permanent_failure_attempts:
  assumes "message \<noteq> []" and "this_client b \<noteq> None"
    and "\<forall>k req. isl (create_completion E k req)"
  shows "fst (chat E b message ids w) = Inr ([], no_ids) \<and>
         completion_calls (snd (chat E b message ids w)) =
           completion_calls w @
           replicate (openaiRetries (this_options b) + 1)
             (build_request b (fst (assemble E b message ids (snd (Date_now E w)))))"
proof -
  obtain start w0 where d: "Date_now E w = (start, w0)" by (cases "Date_now E w")
  obtain msgs w1 where as: "assemble E b message ids w0 = (msgs, w1)"
    by (cases "assemble E b message ids w0")
  from pRetry_all_fail [OF assms(3), of b msgs "openaiRetries (this_options b)" 1 w1]
  obtain e w2 where
    p: "pRetry (attempt E b msgs) (onFailedAttempt b) (openaiRetries (this_options b)) 1 w1 = (Inl e, w2)"
    and c: "completion_calls w2 = completion_calls w1 @
              replicate (Suc (openaiRetries (this_options b))) (build_request b msgs)"
    by blast
  have c0: "completion_calls w0 = completion_calls w"
    using d by (auto simp: Date_now_def)
  have c1: "completion_calls w1 = completion_calls w"
    using assemble_fields(1) [OF as] c0 by simp
  from assms(2) obtain cl where cl: "this_client b = Some cl" by auto
  show ?thesis
    using assms(1) cl d as p c c1
    by (cases e) (simp_all add: chat_def chat_impl_def info_def warning_def)
qed

theorem permanent_failure_attempts_witness:
  "fst (chat env_down bot1 ''hi'' ids_prev world0) = Inr ([], no_ids) \<and>
   length (completion_calls (snd (chat env_down bot1 ''hi'' ids_prev world0))) = 2 + 1"
proof -
  have h1: "''hi'' \<noteq> []" by simp
  have h2: "this_client bot1 \<noteq> None" by (simp add: bot1_def)
  have h3: "\<forall>k req. isl (create_completion env_down k req)" by (simp add: env_down_def)
  show ?thesis
    using permanent_failure_attempts [OF h1 h2 h3, of ids_prev world0]
    by (simp add: bot1_def opts1_def world0_def)
qed

section \<open>The empty message\<close>

text \<open>
  C4. For every identity, \<open>chat('', i)\<close> resolves to \<open>['', {}]\<close>; the clock is read once
  and no remote call is made: the thread is not listed and no completion is requested.
\<close>

theorem empty_message_no_remote_call:
  "chat E b [] i w = (Inr ([], no_ids), w\<lparr>ticks := Suc (ticks w)\<rparr>) \<and>
   history_calls (snd (chat E b [] i w)) = history_calls w \<and>
   completion_calls (snd (chat E b [] i w)) = completion_calls w"
  by (simp add: chat_def chat_impl_def Date_now_def)

section \<open>A failing history provider\<close>

text \<open>
  C5, amended. When listing the thread throws, the warning is logged and the array is
  exactly the system message and the new user message; every request of the turn
  carries these two messages; and when a completion then succeeds, \<open>chat\<close> returns the
  text of the response as \<open>responseText\<close> gives it, with a truthy \<open>messageId\<close> and the
  incoming \<open>threadId\<close>.
\<close>

theorem history_failure_degrades:
  assumes "m \<noteq> []" and "this_client b \<noteq> None"
    and "truthy (messageId i)" and "threadId i = Some tid" and "tid \<noteq> []"
    and "list_messages E (length (history_calls w)) tid = Inl err"
  shows "assemble E b m i (snd (Date_now E w)) =
           ([\<lparr>role = System, content = this_systemMessage b\<rparr>, \<lparr>role = User, content = m\<rparr>],
            warning ''Failed to retrieve message history, continuing with new message''
              (w\<lparr>ticks := Suc (ticks w), history_calls := history_calls w @ [tid]\<rparr>)) \<and>
         (\<exists>j. 1 \<le> j \<and> j \<le> openaiRetries (this_options b) + 1 \<and>
              completion_calls (snd (chat E b m i w)) =
                completion_calls w @
                replicate j (build_request b
                  [\<lparr>role = System, content = this_systemMessage b\<rparr>,
                   \<lparr>role = User, content = m\<rparr>])) \<and>
         (\<forall>resp w2.
            pRetry (attempt E b [\<lparr>role = System, content = this_systemMessage b\<rparr>,
                                 \<lparr>role = User, content = m\<rparr>])
              (onFailedAttempt b) (openaiRetries (this_options b)) 1
              (warning ''Failed to retrieve message history, continuing with new message''
                 (w\<lparr>ticks := Suc (ticks w), history_calls := history_calls w @ [tid]\<rparr>))
              = (Inr resp, w2) \<longrightarrow>
            (\<exists>ids' w'. chat E b m i w = (Inr (responseText (response_content resp), ids'), w') \<and>
               truthy (messageId ids') \<and> threadId ids' = Some tid))"
proof -
  let ?msgs = "[\<lparr>role = System, content = this_systemMessage b\<rparr>, \<lparr>role = User, content = m\<rparr>]"
  let ?w1 = "warning ''Failed to retrieve message history, continuing with new message''
              (w\<lparr>ticks := Suc (ticks w), history_calls := history_calls w @ [tid]\<rparr>)"
  have l: "list_messages E (length (history_calls (snd (Date_now E w)))) tid = Inl err"
    using assms(6) by (simp add: Date_now_def)
  have as: "assemble E b m i (snd (Date_now E w)) = (?msgs, ?w1)"
    unfolding assemble_history_fails [OF assms(3,4,5) l] by (simp add: Date_now_def)
  have calls: "\<exists>j. 1 \<le> j \<and> j \<le> openaiRetries (this_options b) + 1 \<and>
              completion_calls (snd (chat E b m i w)) =
                completion_calls w @ replicate j (build_request b ?msgs)"
    using chat_requests_of_assemble [OF assms(1,2) as] by simp
  have ok: "\<exists>ids' w'. chat E b m i w = (Inr (responseText (response_content resp), ids'), w') \<and>
               truthy (messageId ids') \<and> threadId ids' = Some tid"
    if p: "pRetry (attempt E b ?msgs) (onFailedAttempt b) (openaiRetries (this_options b)) 1 ?w1
             = (Inr resp, w2)" for resp w2
  proof -
    have tr: "truthy (threadId i)" using assms(4,5) by (simp add: truthy_def)
    show ?thesis
      unfolding chat_succeeds [OF assms(1,2) as p] respond_result
      using tr assms(4) by (simp add: truthy_def)
  qed
  from as calls ok show ?thesis by blast
qed

theorem history_failure_degrades_witness:
  "chat env_nohist bot1 ''hi'' ids_prev world0 =
     (Inr (''hello'', \<lparr>messageId = Some ''assistant_1002'', threadId = Some ''thread_7''\<rparr>),
      \<lparr>ticks = 3,
       logged = [Warning ''Failed to retrieve message history, continuing with new message'',
                 Info ''openai response time: 1 ms''],
       history_calls = [''thread_7''],
       completion_calls = [build_request bot1
          [\<lparr>role = System, content = this_systemMessage bot1\<rparr>,
           \<lparr>role = User, content = ''hi''\<rparr>]]\<rparr>)"
proof -
  have h1: "''hi'' \<noteq> []" by simp
  have h2: "this_client bot1 \<noteq> None" by (simp add: bot1_def)
  have h3: "truthy (messageId ids_prev)" by (simp add: truthy_def ids_prev_def)
  have h4: "threadId ids_prev = Some ''thread_7''" by (simp add: ids_prev_def)
  have h5: "''thread_7'' \<noteq> []" by simp
  have h6: "list_messages env_nohist (length (history_calls world0)) ''thread_7''
              = Inl (Error ''no such thread'' ''at list'')"
    by (simp add: env_nohist_def)
  show ?thesis
    using history_failure_degrades [OF h1 h2 h3 h4 h5 h6] chat_nohist by simp
qed

text \<open>
  C5, as stated, fails where it promises a non-empty text: with a failing history
  provider and a completion that succeeds with a null content, the text is empty and the
  identity is populated.
\<close>

theorem history_failure_empty_text:
  "list_messages env_null (length (history_calls world0)) ''thread_7''
     = Inl (Error ''no such thread'' ''at list'') \<and>
   create_completion env_null 0
       (build_request bot1 [\<lparr>role = System, content = this_systemMessage bot1\<rparr>,
                            \<lparr>role = User, content = ''hi''\<rparr>])
     = Inr \<lparr>choices = [\<lparr>response_role = Assistant, response_content = None\<rparr>]\<rparr> \<and>
   chat env_null bot1 ''hi'' ids_prev world0 =
     (Inr ([], \<lparr>messageId = Some ''assistant_1002'', threadId = Some ''thread_7''\<rparr>),
      \<lparr>ticks = 3,
       logged = [Warning ''Failed to retrieve message history, continuing with new message'',
                 Info ''openai response time: 1 ms''],
       history_calls = [''thread_7''],
       completion_calls = [build_request bot1
          [\<lparr>role = System, content = this_systemMessage bot1\<rparr>,
           \<lparr>role = User, content = ''hi''\<rparr>]]\<rparr>)"
  by code_simp

section \<open>The prefix of the response text\<close>

text \<open>
  C6. \<open>with hello\<close> becomes \<open>hello\<close> and \<open>hi there\<close> stays as it is; in general the
  prefix \<open>with \<close> is removed once from a content that starts with it, and a content that
  does not start with it is returned unchanged.
\<close>

theorem responseText_prefix:
  "responseText (Some ''with hello'') = ''hello'' \<and>
   responseText (Some ''hi there'') = ''hi there'' \<and>
   responseText (Some (''with '' @ s)) = s \<and>
   (\<not> startsWith c ''with '' \<longrightarrow> responseText (Some c) = c)"
  by (simp add: responseText_def startsWith_def substring_def)

theorem responseText_prefix_witness:
  "\<not> startsWith ''say with me'' ''with '' \<and> responseText (Some ''say with me'') = ''say with me'' \<and>
   responseText (Some ''with with x'') = ''with x''"
  using responseText_prefix [of "''with x''" "''say with me''"]
  by (simp add: startsWith_def)

section \<open>The new identity\<close>

text \<open>
  C7. When the retried call yields a response, \<open>chat\<close> returns an identity whose
  \<open>messageId\<close> is the role of the response, an underscore and the clock value read for
  it, and whose \<open>threadId\<close> is the incoming one when that is truthy and otherwise
  \<open>thread_\<close> followed by the next clock value; both are non-empty strings.
\<close>

theorem new_identity_populated:
  assumes "m \<noteq> []" and "this_client b \<noteq> None"
    and "assemble E b m i (snd (Date_now E w)) = (msgs, w1)"
    and "pRetry (attempt E b msgs) (onFailedAttempt b) (openaiRetries (this_options b)) 1 w1
           = (Inr resp, w2)"
  shows "\<exists>text ids' w'. chat E b m i w = (Inr (text, ids'), w') \<and>
           messageId ids' =
             Some (role_str (response_role resp) @ ''_'' @ show_int (now E (ticks w + 2))) \<and>
           threadId ids' =
             (if truthy (threadId i) then threadId i
              else Some (''thread_'' @ show_int (now E (ticks w + 3)))) \<and>
           truthy (messageId ids') \<and> truthy (threadId ids')"
proof -
  have t2: "ticks w2 = Suc (ticks w)"
    using pRetry_ticks [OF assms(4)] assemble_ticks [OF assms(3)] by simp
  let ?ids = "\<lparr>messageId = Some (role_str (response_role resp) @ ''_'' @ show_int (now E (ticks w + 2))),
       threadId = (if truthy (threadId i) then threadId i
                   else Some (''thread_'' @ show_int (now E (ticks w + 3))))\<rparr>"
  have "chat E b m i w =
          (Inr (responseText (response_content resp), ?ids),
           snd (respond E b i (now E (ticks w)) resp w2))"
    unfolding chat_succeeds [OF assms] respond_result t2
    by (simp add: eval_nat_numeral)
  moreover have "truthy (messageId ?ids)" by (simp add: truthy_def)
  moreover have "truthy (threadId ?ids)" by (simp add: truthy_def)
  ultimately show ?thesis by (intro exI [of _ "responseText (response_content resp)"] exI [of _ ?ids]
        exI [of _ "snd (respond E b i (now E (ticks w)) resp w2)"]) simp
qed

theorem new_identity_populated_witness:
  "fst (chat env_up bot1 ''hi'' no_ids world0) =
     Inr (''hello'', \<lparr>messageId = Some ''assistant_1002'', threadId = Some ''thread_1003''\<rparr>) \<and>
   fst (chat env_nohist bot1 ''hi'' ids_prev world0) =
     Inr (''hello'', \<lparr>messageId = Some ''assistant_1002'', threadId = Some ''thread_7''\<rparr>)"
proof -
  have h1: "''hi'' \<noteq> []" by simp
  have h2: "this_client bot1 \<noteq> None" by (simp add: bot1_def)
  show ?thesis
    using new_identity_populated [OF h1 h2 turn_up_first]
      new_identity_populated [OF h1 h2 turn_nohist_prev] chat_up_ids chat_nohist
    by simp
qed

section \<open>The missing credential\<close>

text \<open>
  C8. Without a truthy \<open>OPENAI_API_KEY\<close> the constructor throws its \<open>Error\<close>: no \<open>Bot\<close>
  exists, so the failure belongs to construction and not to a call of \<open>chat\<close>.
\<close>

theorem missing_credential_throws:
  "\<not> truthy (OPENAI_API_KEY p) \<Longrightarrow>
   constructor p opts oopts = Inl (Error missing_key (constructor_stack p))"
  by (simp add: constructor_def truthy_def split: option.splits)

theorem missing_credential_throws_witness:
  "\<not> truthy (OPENAI_API_KEY process_without_key) \<and>
   constructor process_without_key opts1 oopts1 = Inl (Error missing_key ''at new Bot'')"
proof -
  have h: "\<not> truthy (OPENAI_API_KEY process_without_key)"
    by (simp add: truthy_def process_without_key_def)
  show ?thesis
    using h missing_credential_throws [OF h, of opts1 oopts1]
    by (simp add: process_without_key_def)
qed

section \<open>The system message\<close>

text \<open>
  C9. A constructed \<open>Bot\<close> holds the system message built from the base instruction, the
  knowledge cutoff, the date of construction as \<open>YYYY-MM-DD\<close> and the language
  directive, in this order; and every request of every turn starts with a system-role
  message with exactly this content.
\<close>

theorem systemMessage_fixed:
  assumes "constructor p opts oopts = Inr b"
  shows "this_systemMessage b =
           systemMessage opts @ '' '' @ [CHR 0x0A]
           @ ''Knowledge cutoff: '' @ knowledgeCutOff (tokenLimits oopts) @ [CHR 0x0A]
           @ ''Current date: ''
           @ (if year (new_Date p) \<le> 9999 then pad 4 (year (new_Date p))
              else ''+'' @ pad 6 (year (new_Date p)))
           @ ''-'' @ pad 2 (month (new_Date p)) @ ''-'' @ pad 2 (day (new_Date p)) @ [CHR 0x0A]
           @ [CHR 0x0A]
           @ ''IMPORTANT: Entire response must be in the language with ISO code: ''
           @ language opts @ [CHR 0x0A] \<and>
         (\<forall>req \<in> set (drop (length (completion_calls w)) (completion_calls (snd (chat E b m i w)))).
            \<exists>rest. messages req = \<lparr>role = System, content = this_systemMessage b\<rparr> # rest)"
proof
  show "this_systemMessage b =
           systemMessage opts @ '' '' @ [CHR 0x0A]
           @ ''Knowledge cutoff: '' @ knowledgeCutOff (tokenLimits oopts) @ [CHR 0x0A]
           @ ''Current date: ''
           @ (if year (new_Date p) \<le> 9999 then pad 4 (year (new_Date p))
              else ''+'' @ pad 6 (year (new_Date p)))
           @ ''-'' @ pad 2 (month (new_Date p)) @ ''-'' @ pad 2 (day (new_Date p)) @ [CHR 0x0A]
           @ [CHR 0x0A]
           @ ''IMPORTANT: Entire response must be in the language with ISO code: ''
           @ language opts @ [CHR 0x0A]"
    unfolding constructor_Inr(1) [OF assms] build_systemMessage_def currentDate_eq
    by simp
next
  from chat_requests [of b E m i w] obtain j rest where
    "completion_calls (snd (chat E b m i w)) =
       completion_calls w @
       replicate j (build_request b (\<lparr>role = System, content = this_systemMessage b\<rparr>
                                     # \<lparr>role = User, content = m\<rparr> # rest))"
    by blast
  then show "\<forall>req \<in> set (drop (length (completion_calls w)) (completion_calls (snd (chat E b m i w)))).
            \<exists>rest. messages req = \<lparr>role = System, content = this_systemMessage b\<rparr> # rest"
    by (auto simp: build_request_def)
qed

theorem systemMessage_fixed_witness:
  "constructor process_with_key opts1 oopts1 = Inr bot1 \<and>
   this_systemMessage bot1 =
     ''You are a code reviewer. '' @ [CHR 0x0A]
     @ ''Knowledge cutoff: 2021-09-01'' @ [CHR 0x0A]
     @ ''Current date: 2024-03-09'' @ [CHR 0x0A, CHR 0x0A]
     @ ''IMPORTANT: Entire response must be in the language with ISO code: en-US'' @ [CHR 0x0A] \<and>
   map messages (completion_calls (snd (chat env_up bot1 ''hi'' no_ids world0))) =
     [[\<lparr>role = System, content = this_systemMessage bot1\<rparr>, \<lparr>role = User, content = ''hi''\<rparr>]]"
  using systemMessage_fixed [OF constructor_bot1, of world0 env_up "''hi''" no_ids]
    constructor_bot1 sys1 chat_up_first
  by simp

section \<open>A null content\<close>

text \<open>
  C10. When the retried call yields a response whose content is null, \<open>chat\<close> resolves
  to the empty text with both fields of the identity populated, which differs from the
  result \<open>['', {}]\<close> of a failed turn.
\<close>

theorem null_content_is_success:
  assumes "m \<noteq> []" and "this_client b \<noteq> None"
    and "assemble E b m i (snd (Date_now E w)) = (msgs, w1)"
    and "pRetry (attempt E b msgs) (onFailedAttempt b) (openaiRetries (this_options b)) 1 w1
           = (Inr resp, w2)"
    and "response_content resp = None"
  shows "\<exists>ids' w'. chat E b m i w = (Inr ([], ids'), w') \<and>
           truthy (messageId ids') \<and> truthy (threadId ids') \<and> ids' \<noteq> no_ids"
  unfolding chat_succeeds [OF assms(1-4)] respond_result
  using assms(5) by (auto simp: truthy_def responseText_def startsWith_def no_ids_def)

theorem null_content_is_success_witness:
  "fst (chat env_null bot1 ''hi'' no_ids world0) =
     Inr ([], \<lparr>messageId = Some ''assistant_1002'', threadId = Some ''thread_1003''\<rparr>)"
proof -
  have h1: "''hi'' \<noteq> []" by simp
  have h2: "this_client bot1 \<noteq> None" by (simp add: bot1_def)
  have h5: "response_content \<lparr>response_role = Assistant, response_content = None\<rparr> = None"
    by simp
  show ?thesis
    using null_content_is_success [OF h1 h2 turn_null_first h5] chat_null_first by simp
qed

end
